theory Spec2Isabelle
  imports Main "HOL-Library.Word"
begin

section \<open>The link-list accessor of \<^verbatim>\<open>list.cpp\<close>\<close>

text \<open>
  \<^verbatim>\<open>list.cpp\<close> implements the five member functions of \<^verbatim>\<open>realm::List\<close>. The class
  has one field, \<^verbatim>\<open>m_link_view\<close>, a handle to a link view that it does not own. Every
  member function is a call, or a guarded call, on that handle.

  The link view itself is not part of the file: it is taken as a parameter, a record of
  its five operations over an abstract state \<open>'s\<close>. The value-returning operations
  (\<^verbatim>\<open>size\<close>, \<^verbatim>\<open>get\<close>, \<^verbatim>\<open>is_attached\<close>) are queries of the state, the \<^verbatim>\<open>void\<close> ones
  (\<^verbatim>\<open>set\<close>, \<^verbatim>\<open>sync_if_needed\<close>) transform it. \<^verbatim>\<open>std::size_t\<close> is an unsigned machine
  integer; its width is left open (\<open>'w word\<close>), so every result holds for 32 and for
  64 bit targets alike. The record is declared over any index type \<open>'i\<close>; the member
  functions use it at \<open>'i = 'w word\<close>.

  The calls on the link view return normally: the only exceptions are the two thrown in
  \<^verbatim>\<open>list.cpp\<close> itself. What the link view does on an index outside its range is left to
  the parameter; the results below show that the accessor never asks.
\<close>

subsection \<open>The link view behind \<^verbatim>\<open>m_link_view\<close>\<close>

record ('s, 'i, 'row) link_view =
  lv_size :: "'s \<Rightarrow> 'i"
  lv_get :: "'s \<Rightarrow> 'i \<Rightarrow> 'row"
  lv_set :: "'s \<Rightarrow> 'i \<Rightarrow> 'i \<Rightarrow> 's"
  lv_is_attached :: "'s \<Rightarrow> bool"
  lv_sync_if_needed :: "'s \<Rightarrow> 's"

text \<open>
  The calls made through \<^verbatim>\<open>m_link_view\<close>, with their arguments. A run of a member
  function appends one entry per call, in program order, to the log kept beside the
  state of the link view.
\<close>

datatype 'i call =
    CallSize
  | CallGet 'i
  | CallSet 'i 'i
  | CallIsAttached
  | CallSyncIfNeeded

record ('s, 'i) world =
  lv_state :: 's
  calls :: "'i call list"

definition call_size :: "('s, 'w::len word, 'row) link_view \<Rightarrow> ('s, 'w word) world \<Rightarrow> 'w word \<times> ('s, 'w word) world" where
  "call_size lv w = (lv_size lv (lv_state w), w\<lparr>calls := calls w @ [CallSize]\<rparr>)"

definition call_get :: "('s, 'w::len word, 'row) link_view \<Rightarrow> 'w word \<Rightarrow> ('s, 'w word) world \<Rightarrow> 'row \<times> ('s, 'w word) world" where
  "call_get lv ndx w = (lv_get lv (lv_state w) ndx, w\<lparr>calls := calls w @ [CallGet ndx]\<rparr>)"

definition call_set :: "('s, 'w::len word, 'row) link_view \<Rightarrow> 'w word \<Rightarrow> 'w word \<Rightarrow> ('s, 'w word) world \<Rightarrow> ('s, 'w word) world" where
  "call_set lv ndx target w =
     w\<lparr>lv_state := lv_set lv (lv_state w) ndx target, calls := calls w @ [CallSet ndx target]\<rparr>"

definition call_is_attached :: "('s, 'w::len word, 'row) link_view \<Rightarrow> ('s, 'w word) world \<Rightarrow> bool \<times> ('s, 'w word) world" where
  "call_is_attached lv w = (lv_is_attached lv (lv_state w), w\<lparr>calls := calls w @ [CallIsAttached]\<rparr>)"

definition call_sync_if_needed :: "('s, 'w::len word, 'row) link_view \<Rightarrow> ('s, 'w word) world \<Rightarrow> ('s, 'w word) world" where
  "call_sync_if_needed lv w =
     w\<lparr>lv_state := lv_sync_if_needed lv (lv_state w), calls := calls w @ [CallSyncIfNeeded]\<rparr>"

subsection \<open>\<^verbatim>\<open>std::to_string\<close> and the exceptions\<close>

text \<open>\<^verbatim>\<open>std::to_string\<close> of an unsigned integer: its decimal digits, without leading zeros.\<close>

definition digit_char :: "nat \<Rightarrow> char" where
  "digit_char d = char_of (48 + d)"

fun to_string :: "nat \<Rightarrow> string" where
  "to_string n = (if n < 10 then [digit_char n] else to_string (n div 10) @ [digit_char (n mod 10)])"

declare to_string.simps [simp del]

text \<open>
  The two exceptions thrown in the file, each with its \<^verbatim>\<open>what()\<close> text:
  \<^verbatim>\<open>std::out_of_range\<close> and \<^verbatim>\<open>std::runtime_error\<close>.
\<close>

datatype error =
    OutOfRange string
  | RuntimeError string

subsection \<open>The member functions of \<^verbatim>\<open>List\<close>\<close>

definition List_size :: "('s, 'w::len word, 'row) link_view \<Rightarrow> ('s, 'w word) world \<Rightarrow> 'w word \<times> ('s, 'w word) world" where
  "List_size lv w = call_size lv w"

definition out_of_range_message :: "'w::len word \<Rightarrow> 'w word \<Rightarrow> string" where
  "out_of_range_message row_ndx sz =
     ''Index '' @ to_string (unat row_ndx) @ '' is outside of range 0...'' @ to_string (unat sz) @ ''.''"

definition verify_valid_row ::
  "('s, 'w::len word, 'row) link_view \<Rightarrow> 'w word \<Rightarrow> ('s, 'w word) world \<Rightarrow> (error + unit) \<times> ('s, 'w word) world" where
  "verify_valid_row lv row_ndx w =
     (case call_size lv w of (sz, w1) \<Rightarrow>
        if row_ndx \<ge> sz then (Inl (OutOfRange (out_of_range_message row_ndx sz)), w1)
        else (Inr (), w1))"

definition List_get ::
  "('s, 'w::len word, 'row) link_view \<Rightarrow> 'w word \<Rightarrow> ('s, 'w word) world \<Rightarrow> (error + 'row) \<times> ('s, 'w word) world" where
  "List_get lv row_ndx w =
     (case verify_valid_row lv row_ndx w of
        (Inl e, w1) \<Rightarrow> (Inl e, w1)
      | (Inr u, w1) \<Rightarrow> (case call_get lv row_ndx w1 of (r, w2) \<Rightarrow> (Inr r, w2)))"

definition List_set ::
  "('s, 'w::len word, 'row) link_view \<Rightarrow> 'w word \<Rightarrow> 'w word \<Rightarrow> ('s, 'w word) world \<Rightarrow> (error + unit) \<times> ('s, 'w word) world" where
  "List_set lv row_ndx target_row_ndx w =
     (case verify_valid_row lv row_ndx w of
        (Inl e, w1) \<Rightarrow> (Inl e, w1)
      | (Inr u, w1) \<Rightarrow> (Inr (), call_set lv row_ndx target_row_ndx w1))"

definition verify_attached ::
  "('s, 'w::len word, 'row) link_view \<Rightarrow> ('s, 'w word) world \<Rightarrow> (error + unit) \<times> ('s, 'w word) world" where
  "verify_attached lv w =
     (case call_is_attached lv w of (attached, w1) \<Rightarrow>
        if \<not> attached then (Inl (RuntimeError ''Tableview is not attached''), w1)
        else (Inr (), call_sync_if_needed lv w1))"

subsection \<open>Observing a run\<close>

text \<open>The calls a run has made on the link view: what it appended to the log.\<close>

definition new_calls :: "('s, 'i) world \<Rightarrow> ('s, 'i) world \<Rightarrow> 'i call list" where
  "new_calls w w' = drop (length (calls w)) (calls w')"

text \<open>
  Reading the two numbers of an out-of-range message back from its text. These functions
  are not in \<^verbatim>\<open>list.cpp\<close>; they are what a caller does who takes the index and the size
  from \<^verbatim>\<open>what()\<close>: skip \<^verbatim>\<open>"Index "\<close>, read digits, skip \<^verbatim>\<open>" is outside of range 0..."\<close>,
  read digits.
\<close>

definition is_digit :: "char \<Rightarrow> bool" where
  "is_digit c = (48 \<le> (of_char c :: nat) \<and> (of_char c :: nat) \<le> 57)"

definition digits_value :: "string \<Rightarrow> nat" where
  "digits_value cs = foldl (\<lambda>a c. 10 * a + (of_char c - 48)) 0 cs"

definition message_index :: "string \<Rightarrow> nat" where
  "message_index msg = digits_value (takeWhile is_digit (drop 6 msg))"

definition message_size :: "string \<Rightarrow> nat" where
  "message_size msg = digits_value (takeWhile is_digit (drop 25 (dropWhile is_digit (drop 6 msg))))"

text \<open>
  The range as the specification writes it, the half-open interval \<^verbatim>\<open>[0, <size>)\<close>, and
  the test whether a message holds a given piece of text. Neither is in \<^verbatim>\<open>list.cpp\<close>:
  they are the specification's wording of the range, to be compared with the text that
  \<^verbatim>\<open>verify_valid_row\<close> builds.
\<close>

definition spec_range_text :: "nat \<Rightarrow> string" where
  "spec_range_text n = ''[0, '' @ to_string n @ '')''"

fun has_prefix :: "string \<Rightarrow> string \<Rightarrow> bool" where
  "has_prefix [] msg = True"
| "has_prefix (p # ps) [] = False"
| "has_prefix (p # ps) (c # cs) = (p = c \<and> has_prefix ps cs)"

fun mentions :: "string \<Rightarrow> string \<Rightarrow> bool" where
  "mentions pat [] = has_prefix pat []"
| "mentions pat (c # cs) = (has_prefix pat (c # cs) \<or> mentions pat cs)"

subsection \<open>A link view to run the member functions on\<close>

text \<open>
  A small link view over 64 bit indices, for the examples below: the rows are a list of
  target row numbers, \<^verbatim>\<open>set\<close> overwrites one position, \<^verbatim>\<open>sync_if_needed\<close> counts its
  calls. Reading or writing outside the list is what the real link view leaves
  unchecked; here such a read gives 0 and such a write changes nothing.
\<close>

record example_state =
  rows :: "nat list"
  attached :: bool
  syncs :: nat

definition example_link_view :: "(example_state, 64 word, nat) link_view" where
  "example_link_view =
     \<lparr>lv_size = (\<lambda>s. of_nat (length (rows s))),
      lv_get = (\<lambda>s i. if unat i < length (rows s) then rows s ! unat i else 0),
      lv_set = (\<lambda>s i t. s\<lparr>rows := (rows s)[unat i := unat t]\<rparr>),
      lv_is_attached = attached,
      lv_sync_if_needed = (\<lambda>s. s\<lparr>syncs := Suc (syncs s)\<rparr>)\<rparr>"

definition example_world :: "nat list \<Rightarrow> bool \<Rightarrow> (example_state, 64 word) world" where
  "example_world rs a = \<lparr>lv_state = \<lparr>rows = rs, attached = a, syncs = 0\<rparr>, calls = []\<rparr>"

section \<open>What each member function computes\<close>

text \<open>
  Each member function written out as one equation: its result, the state of the link
  view afterwards and the calls it has logged. The unsigned comparison
  \<^verbatim>\<open>row_ndx >= size\<close> is the order of \<open>'w word\<close>.
\<close>

lemma verify_valid_row_eq:
  "verify_valid_row lv row_ndx w =
     (if row_ndx < lv_size lv (lv_state w) then Inr ()
      else Inl (OutOfRange (out_of_range_message row_ndx (lv_size lv (lv_state w)))),
      w\<lparr>calls := calls w @ [CallSize]\<rparr>)"
  by (auto simp add: verify_valid_row_def call_size_def)

lemma List_size_eq:
  "List_size lv w = (lv_size lv (lv_state w), w\<lparr>calls := calls w @ [CallSize]\<rparr>)"
  by (simp add: List_size_def call_size_def)

lemma List_get_eq:
  "List_get lv row_ndx w =
     (if row_ndx < lv_size lv (lv_state w)
      then (Inr (lv_get lv (lv_state w) row_ndx), w\<lparr>calls := calls w @ [CallSize, CallGet row_ndx]\<rparr>)
      else (Inl (OutOfRange (out_of_range_message row_ndx (lv_size lv (lv_state w)))),
            w\<lparr>calls := calls w @ [CallSize]\<rparr>))"
  by (simp add: List_get_def verify_valid_row_eq call_get_def)

lemma List_set_eq:
  "List_set lv row_ndx target_row_ndx w =
     (if row_ndx < lv_size lv (lv_state w)
      then (Inr (), w\<lparr>lv_state := lv_set lv (lv_state w) row_ndx target_row_ndx,
                      calls := calls w @ [CallSize, CallSet row_ndx target_row_ndx]\<rparr>)
      else (Inl (OutOfRange (out_of_range_message row_ndx (lv_size lv (lv_state w)))),
            w\<lparr>calls := calls w @ [CallSize]\<rparr>))"
  by (simp add: List_set_def verify_valid_row_eq call_set_def)

lemma verify_attached_eq:
  "verify_attached lv w =
     (if lv_is_attached lv (lv_state w)
      then (Inr (), w\<lparr>lv_state := lv_sync_if_needed lv (lv_state w),
                      calls := calls w @ [CallIsAttached, CallSyncIfNeeded]\<rparr>)
      else (Inl (RuntimeError ''Tableview is not attached''),
            w\<lparr>calls := calls w @ [CallIsAttached]\<rparr>))"
  by (simp add: verify_attached_def call_is_attached_def call_sync_if_needed_def)

lemma new_calls_append [simp]:
  "new_calls w (w'\<lparr>calls := calls w @ cs\<rparr>) = cs"
  by (simp add: new_calls_def)

section \<open>The text of the out-of-range message\<close>

text \<open>
  \<^verbatim>\<open>std::to_string\<close> writes digits only and reading them back gives the number, so the
  message determines the index and the size it was built from.
\<close>

lemma of_char_digit_char: "d < 10 \<Longrightarrow> (of_char (digit_char d) :: nat) = 48 + d"
  by (simp add: digit_char_def)

lemma is_digit_digit_char: "d < 10 \<Longrightarrow> is_digit (digit_char d)"
  by (simp add: is_digit_def of_char_digit_char)

lemma to_string_digits: "c \<in> set (to_string n) \<Longrightarrow> is_digit c"
proof (induction n arbitrary: c rule: to_string.induct)
  case (1 n)
  show ?case
  proof (cases "n < 10")
    case True
    with "1.prems" show ?thesis
      by (simp add: to_string.simps [of n] is_digit_digit_char)
  next
    case False
    with "1.prems" "1.IH" show ?thesis
      by (auto simp add: to_string.simps [of n] is_digit_digit_char)
  qed
qed

lemma digits_value_snoc:
  "digits_value (cs @ [c]) = 10 * digits_value cs + (of_char c - 48)"
  by (simp add: digits_value_def)

lemma digits_value_to_string: "digits_value (to_string n) = n"
proof (induction n rule: to_string.induct)
  case (1 n)
  show ?case
  proof (cases "n < 10")
    case True
    then show ?thesis
      by (simp add: to_string.simps [of n] digits_value_def of_char_digit_char)
  next
    case False
    with "1.IH" show ?thesis
      by (simp add: to_string.simps [of n] digits_value_snoc of_char_digit_char)
  qed
qed

lemma takeWhile_to_string:
  "\<not> is_digit c \<Longrightarrow> takeWhile is_digit (to_string n @ c # r) = to_string n"
  by (simp add: to_string_digits)

lemma dropWhile_to_string:
  "\<not> is_digit c \<Longrightarrow> dropWhile is_digit (to_string n @ c # r) = c # r"
  by (simp add: to_string_digits)

lemma message_index_eq: "message_index (out_of_range_message row_ndx sz) = unat row_ndx"
  by (simp add: message_index_def out_of_range_message_def takeWhile_to_string
      is_digit_def digits_value_to_string)

lemma message_size_eq: "message_size (out_of_range_message row_ndx sz) = unat sz"
  by (simp add: message_size_def out_of_range_message_def takeWhile_to_string
      dropWhile_to_string is_digit_def digits_value_to_string)

text \<open>
  The message has no closing parenthesis, so it never holds the range in the
  specification's half-open notation.
\<close>

lemma has_prefix_subset: "has_prefix pat msg \<Longrightarrow> set pat \<subseteq> set msg"
  by (induction pat msg rule: has_prefix.induct) auto

lemma mentions_subset: "mentions pat msg \<Longrightarrow> set pat \<subseteq> set msg"
proof (induction msg)
  case Nil
  then show ?case
    using has_prefix_subset [of pat "[]"] by simp
next
  case (Cons c cs)
  from Cons.prems have "has_prefix pat (c # cs) \<or> mentions pat cs"
    by simp
  then show ?case
  proof
    assume "has_prefix pat (c # cs)"
    then show ?thesis
      by (rule has_prefix_subset)
  next
    assume "mentions pat cs"
    then have "set pat \<subseteq> set cs"
      by (rule Cons.IH)
    then show ?thesis
      by auto
  qed
qed

lemma to_string_no_paren: "CHR '')'' \<notin> set (to_string n)"
proof
  assume "CHR '')'' \<in> set (to_string n)"
  then have "is_digit CHR '')''"
    by (rule to_string_digits)
  then show False
    by (simp add: is_digit_def)
qed

lemma message_no_paren: "CHR '')'' \<notin> set (out_of_range_message row_ndx sz)"
  by (simp add: out_of_range_message_def to_string_no_paren)

lemma message_not_half_open:
  "\<not> mentions (spec_range_text n) (out_of_range_message row_ndx sz)"
proof
  assume "mentions (spec_range_text n) (out_of_range_message row_ndx sz)"
  then have "set (spec_range_text n) \<subseteq> set (out_of_range_message row_ndx sz)"
    by (rule mentions_subset)
  moreover have "CHR '')'' \<in> set (spec_range_text n)"
    by (simp add: spec_range_text_def)
  ultimately show False
    using message_no_paren [of row_ndx sz] by blast
qed

section \<open>Evaluating the examples\<close>

lemma to_string_small:
  "to_string 0 = ''0''" "to_string 3 = ''3''" "to_string 5 = ''5''" "to_string 120 = ''120''"
  by code_simp+

lemmas example_defs = example_link_view_def example_world_def

section \<open>The properties of the accessor\<close>

text \<open>
  C1. For a link view of size \<open>n\<close> and any index \<open>i\<close>, \<^verbatim>\<open>get(i)\<close> returns the link
  view's own element at \<open>i\<close> exactly when \<open>0 \<le> i < n\<close> (the index is unsigned, so this is
  \<open>unat i < unat n\<close>); otherwise it throws \<^verbatim>\<open>std::out_of_range\<close>, whose message is built
  from \<open>i\<close> and \<open>n\<close> and gives exactly these two numbers when read back.
\<close>

theorem get_in_bounds_iff:
  fixes lv :: "('s, 'w::len word, 'row) link_view"
  shows "if unat i < unat (lv_size lv (lv_state w))
         then fst (List_get lv i w) = Inr (lv_get lv (lv_state w) i)
         else fst (List_get lv i w) = Inl (OutOfRange (out_of_range_message i (lv_size lv (lv_state w))))
              \<and> message_index (out_of_range_message i (lv_size lv (lv_state w))) = unat i
              \<and> message_size (out_of_range_message i (lv_size lv (lv_state w))) = unat (lv_size lv (lv_state w))"
proof (cases "i < lv_size lv (lv_state w)")
  case True
  then have "unat i < unat (lv_size lv (lv_state w))"
    by (simp add: word_less_nat_alt)
  with True show ?thesis
    by (simp add: List_get_eq)
next
  case False
  then have "\<not> unat i < unat (lv_size lv (lv_state w))"
    by (simp add: word_less_nat_alt)
  with False show ?thesis
    by (simp add: List_get_eq message_index_eq message_size_eq)
qed

theorem get_in_bounds_iff_witness:
  "fst (List_get example_link_view 2 (example_world [10, 11, 12] True)) = Inr 12
   \<and> fst (List_get example_link_view 3 (example_world [10, 11, 12] True))
       = Inl (OutOfRange ''Index 3 is outside of range 0...3.'')
   \<and> message_index ''Index 3 is outside of range 0...3.'' = 3
   \<and> message_size ''Index 3 is outside of range 0...3.'' = 3"
  using get_in_bounds_iff [of 2 example_link_view "example_world [10, 11, 12] True"]
    get_in_bounds_iff [of 3 example_link_view "example_world [10, 11, 12] True"]
  by (simp add: example_defs out_of_range_message_def to_string_small)

text \<open>
  C2. \<^verbatim>\<open>set(i, t)\<close> succeeds exactly when \<open>0 \<le> i < n\<close> and otherwise throws
  \<^verbatim>\<open>std::out_of_range\<close> built from \<open>i\<close> and \<open>n\<close>. On success the one write made on the
  link view is \<^verbatim>\<open>set(i, t)\<close> with the caller's \<open>t\<close>, whatever \<open>t\<close> is: no condition on
  \<open>t\<close> appears.
\<close>

theorem set_in_bounds_iff:
  fixes lv :: "('s, 'w::len word, 'row) link_view"
  shows "if unat i < unat (lv_size lv (lv_state w))
         then List_set lv i t w =
                (Inr (), w\<lparr>lv_state := lv_set lv (lv_state w) i t,
                           calls := calls w @ [CallSize, CallSet i t]\<rparr>)
         else fst (List_set lv i t w) = Inl (OutOfRange (out_of_range_message i (lv_size lv (lv_state w))))
              \<and> message_index (out_of_range_message i (lv_size lv (lv_state w))) = unat i
              \<and> message_size (out_of_range_message i (lv_size lv (lv_state w))) = unat (lv_size lv (lv_state w))"
proof (cases "i < lv_size lv (lv_state w)")
  case True
  then have "unat i < unat (lv_size lv (lv_state w))"
    by (simp add: word_less_nat_alt)
  with True show ?thesis
    by (simp add: List_set_eq)
next
  case False
  then have "\<not> unat i < unat (lv_size lv (lv_state w))"
    by (simp add: word_less_nat_alt)
  with False show ?thesis
    by (simp add: List_set_eq message_index_eq message_size_eq)
qed

theorem set_in_bounds_iff_witness:
  "List_set example_link_view 1 18446744073709551615 (example_world [10, 11, 12] True) =
     (Inr (), \<lparr>lv_state = \<lparr>rows = [10, 18446744073709551615, 12], attached = True, syncs = 0\<rparr>,
               calls = [CallSize, CallSet 1 18446744073709551615]\<rparr>)
   \<and> fst (List_set example_link_view 5 42 (example_world [10, 11, 12] True))
       = Inl (OutOfRange ''Index 5 is outside of range 0...3.'')"
  using set_in_bounds_iff [of 1 example_link_view "example_world [10, 11, 12] True" 18446744073709551615]
    set_in_bounds_iff [of 5 example_link_view "example_world [10, 11, 12] True" 42]
  by (simp add: example_defs out_of_range_message_def to_string_small)

text \<open>
  C3. The specification asks for a message that reports the valid range as \<open>[0, size)\<close>.
  The message of \<^verbatim>\<open>verify_valid_row\<close> does not: for index 3 on three rows it is
  \<^verbatim>\<open>Index 3 is outside of range 0...3.\<close>, which names 3 as the end of the range and
  nowhere marks it as excluded.
\<close>

theorem out_of_range_message_counterexample:
  "fst (List_get example_link_view 3 (example_world [10, 11, 12] True))
     = Inl (OutOfRange ''Index 3 is outside of range 0...3.'')
   \<and> \<not> mentions (spec_range_text 3) ''Index 3 is outside of range 0...3.''"
  by (simp add: List_get_eq example_defs out_of_range_message_def to_string_small
      spec_range_text_def)

text \<open>
  C3, as the code has it. When \<^verbatim>\<open>get\<close> or \<^verbatim>\<open>set\<close> fails the bounds check, the message
  is \<^verbatim>\<open>Index <i> is outside of range 0...<size>.\<close>: it reports the offending index and
  the range by its two bounds, 0 and the size read at the check. Both numbers can be read
  back from the text, the size named is never above the index named (the two are equal
  when the index is the size), and the text does not hold the half-open notation
  \<^verbatim>\<open>[0, <size>)\<close>.
\<close>

theorem out_of_range_message_bounds:
  fixes lv :: "('s, 'w::len word, 'row) link_view"
  assumes "fst (List_get lv i w) = Inl e \<or> fst (List_set lv i t w) = Inl e"
  shows "e = OutOfRange (out_of_range_message i (lv_size lv (lv_state w)))
       \<and> out_of_range_message i (lv_size lv (lv_state w))
           = ''Index '' @ to_string (unat i) @ '' is outside of range 0...''
               @ to_string (unat (lv_size lv (lv_state w))) @ ''.''
       \<and> message_index (out_of_range_message i (lv_size lv (lv_state w))) = unat i
       \<and> message_size (out_of_range_message i (lv_size lv (lv_state w))) = unat (lv_size lv (lv_state w))
       \<and> message_size (out_of_range_message i (lv_size lv (lv_state w)))
           \<le> message_index (out_of_range_message i (lv_size lv (lv_state w)))
       \<and> \<not> mentions (spec_range_text (unat (lv_size lv (lv_state w))))
              (out_of_range_message i (lv_size lv (lv_state w)))"
proof -
  from assms have failed: "\<not> i < lv_size lv (lv_state w)"
    by (auto simp add: List_get_eq List_set_eq split: if_splits)
  then have "unat (lv_size lv (lv_state w)) \<le> unat i"
    by (simp add: word_less_nat_alt)
  moreover from assms failed have "e = OutOfRange (out_of_range_message i (lv_size lv (lv_state w)))"
    by (auto simp add: List_get_eq List_set_eq)
  ultimately show ?thesis
    by (simp add: message_index_eq message_size_eq message_not_half_open)
      (simp add: out_of_range_message_def)
qed

theorem out_of_range_message_bounds_witness:
  "fst (List_get example_link_view 3 (example_world [10, 11, 12] True))
     = Inl (OutOfRange ''Index 3 is outside of range 0...3.'')
   \<and> fst (List_set example_link_view 5 42 (example_world [10, 11, 12] True))
     = Inl (OutOfRange ''Index 5 is outside of range 0...3.'')
   \<and> fst (List_get example_link_view 120 (example_world [10, 11, 12] True))
     = Inl (OutOfRange ''Index 120 is outside of range 0...3.'')
   \<and> message_index ''Index 120 is outside of range 0...3.'' = 120
   \<and> message_size ''Index 120 is outside of range 0...3.'' = 3
   \<and> message_size ''Index 3 is outside of range 0...3.'' = message_index ''Index 3 is outside of range 0...3.''"
proof -
  have at_size: "fst (List_get example_link_view 3 (example_world [10, 11, 12] True))
     = Inl (OutOfRange ''Index 3 is outside of range 0...3.'')"
    by (simp add: List_get_eq example_defs out_of_range_message_def to_string_small)
  have beyond: "fst (List_set example_link_view 5 42 (example_world [10, 11, 12] True))
     = Inl (OutOfRange ''Index 5 is outside of range 0...3.'')"
    by (simp add: List_set_eq example_defs out_of_range_message_def to_string_small)
  have far: "fst (List_get example_link_view 120 (example_world [10, 11, 12] True))
     = Inl (OutOfRange ''Index 120 is outside of range 0...3.'')"
    by (simp add: List_get_eq example_defs out_of_range_message_def to_string_small)
  from out_of_range_message_bounds [OF disjI1, OF at_size]
    out_of_range_message_bounds [OF disjI2, OF beyond]
    out_of_range_message_bounds [OF disjI1, OF far]
    at_size beyond far
  show ?thesis
    by (simp add: example_defs out_of_range_message_def to_string_small)
qed

text \<open>
  C4. The accessor never calls the link view's \<^verbatim>\<open>get\<close> or \<^verbatim>\<open>set\<close> with an index outside
  \<open>[0, size)\<close>. Whenever a run of \<^verbatim>\<open>List::get\<close> or \<^verbatim>\<open>List::set\<close> logs such a call, the
  index is the caller's, it is below the size of the link view, and the size query
  comes first in the log; \<^verbatim>\<open>List::get\<close> never writes and \<^verbatim>\<open>List::set\<close> never reads.
\<close>

theorem delegate_only_in_bounds:
  fixes lv :: "('s, 'w::len word, 'row) link_view"
  shows "(\<forall>j. CallGet j \<in> set (new_calls w (snd (List_get lv i w)))
              \<longrightarrow> j = i \<and> unat i < unat (lv_size lv (lv_state w))
                  \<and> new_calls w (snd (List_get lv i w)) = [CallSize, CallGet i])
       \<and> (\<forall>j t'. CallSet j t' \<in> set (new_calls w (snd (List_set lv i t w)))
              \<longrightarrow> j = i \<and> t' = t \<and> unat i < unat (lv_size lv (lv_state w))
                  \<and> new_calls w (snd (List_set lv i t w)) = [CallSize, CallSet i t])
       \<and> (\<forall>j t'. CallSet j t' \<notin> set (new_calls w (snd (List_get lv i w))))
       \<and> (\<forall>j. CallGet j \<notin> set (new_calls w (snd (List_set lv i t w))))"
proof (cases "i < lv_size lv (lv_state w)")
  case True
  then have checked: "unat i < unat (lv_size lv (lv_state w))"
    by (simp add: word_less_nat_alt)
  from True have "new_calls w (snd (List_get lv i w)) = [CallSize, CallGet i]"
    and "new_calls w (snd (List_set lv i t w)) = [CallSize, CallSet i t]"
    by (simp_all add: List_get_eq List_set_eq)
  with checked show ?thesis
    by simp
next
  case False
  then have "new_calls w (snd (List_get lv i w)) = [CallSize]"
    and "new_calls w (snd (List_set lv i t w)) = [CallSize]"
    by (simp_all add: List_get_eq List_set_eq)
  then show ?thesis
    by simp
qed

theorem delegate_only_in_bounds_witness:
  "CallGet 2 \<in> set (new_calls (example_world [10, 11, 12] True)
                      (snd (List_get example_link_view 2 (example_world [10, 11, 12] True))))
   \<and> CallSet 1 42 \<in> set (new_calls (example_world [10, 11, 12] True)
                      (snd (List_set example_link_view 1 42 (example_world [10, 11, 12] True))))
   \<and> unat (2 :: 64 word) < unat (lv_size example_link_view (lv_state (example_world [10, 11, 12] True)))
   \<and> new_calls (example_world [10, 11, 12] True)
        (snd (List_get example_link_view 2 (example_world [10, 11, 12] True))) = [CallSize, CallGet 2]
   \<and> new_calls (example_world [10, 11, 12] True)
        (snd (List_get example_link_view 3 (example_world [10, 11, 12] True))) = [CallSize]"
  using delegate_only_in_bounds [of "example_world [10, 11, 12] True" example_link_view 2 42]
  by (simp add: List_get_eq List_set_eq example_defs new_calls_def)

text \<open>
  C5. \<^verbatim>\<open>verify_attached\<close> throws \<^verbatim>\<open>std::runtime_error("Tableview is not attached")\<close>, an
  exception that is not \<^verbatim>\<open>std::out_of_range\<close>, exactly when the link view reports that it
  is detached; size and contents play no part. It calls \<^verbatim>\<open>sync_if_needed\<close> exactly when
  the link view is attached, and then after \<^verbatim>\<open>is_attached\<close>.
\<close>

theorem verify_attached_iff:
  fixes lv :: "('s, 'w::len word, 'row) link_view"
  shows "(if lv_is_attached lv (lv_state w)
          then verify_attached lv w =
                 (Inr (), w\<lparr>lv_state := lv_sync_if_needed lv (lv_state w),
                            calls := calls w @ [CallIsAttached, CallSyncIfNeeded]\<rparr>)
          else verify_attached lv w =
                 (Inl (RuntimeError ''Tableview is not attached''),
                  w\<lparr>calls := calls w @ [CallIsAttached]\<rparr>))
         \<and> (\<forall>msg. RuntimeError ''Tableview is not attached'' \<noteq> OutOfRange msg)"
  by (simp add: verify_attached_eq)

theorem verify_attached_iff_witness:
  "verify_attached example_link_view (example_world [10, 11, 12] False) =
     (Inl (RuntimeError ''Tableview is not attached''),
      \<lparr>lv_state = \<lparr>rows = [10, 11, 12], attached = False, syncs = 0\<rparr>, calls = [CallIsAttached]\<rparr>)
   \<and> verify_attached example_link_view (example_world [10, 11, 12] True) =
     (Inr (), \<lparr>lv_state = \<lparr>rows = [10, 11, 12], attached = True, syncs = 1\<rparr>,
               calls = [CallIsAttached, CallSyncIfNeeded]\<rparr>)"
  using verify_attached_iff [of example_link_view "example_world [10, 11, 12] False"]
    verify_attached_iff [of example_link_view "example_world [10, 11, 12] True"]
  by (simp add: example_defs)

text \<open>
  C6. When \<^verbatim>\<open>set(i, t)\<close> throws, the link view is in the state it was in before the
  call: the only call made on it was the size query.
\<close>

theorem failed_set_leaves_sequence:
  fixes lv :: "('s, 'w::len word, 'row) link_view"
  assumes "fst (List_set lv i t w) = Inl e"
  shows "lv_state (snd (List_set lv i t w)) = lv_state w
         \<and> new_calls w (snd (List_set lv i t w)) = [CallSize]"
  using assms by (simp add: List_set_eq split: if_splits)

theorem failed_set_leaves_sequence_witness:
  "fst (List_set example_link_view 5 42 (example_world [10, 11, 12] True))
     = Inl (OutOfRange ''Index 5 is outside of range 0...3.'')
   \<and> rows (lv_state (snd (List_set example_link_view 5 42 (example_world [10, 11, 12] True))))
     = [10, 11, 12]"
proof -
  have failed: "fst (List_set example_link_view 5 42 (example_world [10, 11, 12] True))
     = Inl (OutOfRange ''Index 5 is outside of range 0...3.'')"
    by (simp add: List_set_eq example_defs out_of_range_message_def to_string_small)
  from failed_set_leaves_sequence [OF failed] failed show ?thesis
    by (simp add: example_world_def)
qed

text \<open>
  C7. \<^verbatim>\<open>size\<close>, \<^verbatim>\<open>get\<close> and \<^verbatim>\<open>set\<close> make no attachment check: none of them calls
  \<^verbatim>\<open>is_attached\<close> or \<^verbatim>\<open>sync_if_needed\<close> on the link view, and none throws the
  \<^verbatim>\<open>std::runtime_error\<close> of \<^verbatim>\<open>verify_attached\<close>. The check is made by \<^verbatim>\<open>verify_attached\<close>
  alone, which the caller has to invoke.
\<close>

theorem no_attachment_check:
  fixes lv :: "('s, 'w::len word, 'row) link_view"
  shows "set (new_calls w (snd (List_size lv w))) \<inter> {CallIsAttached, CallSyncIfNeeded} = {}
       \<and> set (new_calls w (snd (List_get lv i w))) \<inter> {CallIsAttached, CallSyncIfNeeded} = {}
       \<and> set (new_calls w (snd (List_set lv i t w))) \<inter> {CallIsAttached, CallSyncIfNeeded} = {}
       \<and> (\<forall>msg. fst (List_get lv i w) \<noteq> Inl (RuntimeError msg))
       \<and> (\<forall>msg. fst (List_set lv i t w) \<noteq> Inl (RuntimeError msg))
       \<and> CallIsAttached \<in> set (new_calls w (snd (verify_attached lv w)))"
  by (simp add: List_size_eq List_get_eq List_set_eq verify_attached_eq)

theorem no_attachment_check_witness:
  "set (new_calls (example_world [10, 11, 12] False)
         (snd (List_get example_link_view 2 (example_world [10, 11, 12] False))))
     \<inter> {CallIsAttached, CallSyncIfNeeded} = {}
   \<and> fst (List_get example_link_view 2 (example_world [10, 11, 12] False)) = Inr 12
   \<and> fst (List_size example_link_view (example_world [10, 11, 12] False)) = 3"
  using no_attachment_check [of "example_world [10, 11, 12] False" example_link_view 2 42]
  by (simp add: List_get_eq List_size_eq example_defs)

text \<open>
  C8. \<^verbatim>\<open>size()\<close> and the bounds check read the size from the link view at each call;
  nothing is cached. When the link view is changed from outside between two calls (its
  state replaced by any \<open>s'\<close>), the second \<^verbatim>\<open>size()\<close> gives the size of \<open>s'\<close>, and the
  bounds check of \<^verbatim>\<open>get\<close> and \<^verbatim>\<open>set\<close> compares the index with the size of \<open>s'\<close>.
\<close>

theorem size_queried_each_call:
  fixes lv :: "('s, 'w::len word, 'row) link_view"
  shows "fst (List_size lv w) = lv_size lv (lv_state w)
       \<and> new_calls w (snd (List_size lv w)) = [CallSize]
       \<and> fst (List_size lv ((snd (List_size lv w))\<lparr>lv_state := s'\<rparr>)) = lv_size lv s'
       \<and> (lv_size lv s' \<noteq> lv_size lv (lv_state w) \<longrightarrow>
            fst (List_size lv ((snd (List_size lv w))\<lparr>lv_state := s'\<rparr>)) \<noteq> fst (List_size lv w))
       \<and> (fst (verify_valid_row lv i (w\<lparr>lv_state := s'\<rparr>)) = Inr ()) = (i < lv_size lv s')
       \<and> (\<exists>r. fst (List_get lv i ((snd (List_get lv i w))\<lparr>lv_state := s'\<rparr>)) = Inr r) = (i < lv_size lv s')
       \<and> (\<exists>u. fst (List_set lv i t ((snd (List_set lv i t w))\<lparr>lv_state := s'\<rparr>)) = Inr u) = (i < lv_size lv s')"
  by (simp add: List_size_eq List_get_eq List_set_eq verify_valid_row_eq)

theorem size_queried_each_call_witness:
  "fst (List_size example_link_view (example_world [10, 11, 12] True)) = 3
   \<and> fst (List_size example_link_view
        ((snd (List_size example_link_view (example_world [10, 11, 12] True)))
           \<lparr>lv_state := \<lparr>rows = [10, 11, 12, 13], attached = True, syncs = 0\<rparr>\<rparr>)) = 4
   \<and> fst (List_size example_link_view
        ((snd (List_size example_link_view (example_world [10, 11, 12] True)))
           \<lparr>lv_state := \<lparr>rows = [10, 11, 12, 13], attached = True, syncs = 0\<rparr>\<rparr>))
      \<noteq> fst (List_size example_link_view (example_world [10, 11, 12] True))"
  using size_queried_each_call [of example_link_view "example_world [10, 11, 12] True"
      "\<lparr>rows = [10, 11, 12, 13], attached = True, syncs = 0\<rparr>"]
  by (simp add: example_defs)

text \<open>
  C9. For an index \<open>i\<close> that is in bounds when \<^verbatim>\<open>set(i, t)\<close> is called and when the
  following \<^verbatim>\<open>get(i)\<close> is called, that \<^verbatim>\<open>get(i)\<close> returns what the link view itself gives
  at \<open>i\<close> after its own \<^verbatim>\<open>set(i, t)\<close>: the accessor changes neither the value written nor
  the value read.
\<close>

theorem get_after_set:
  fixes lv :: "('s, 'w::len word, 'row) link_view"
  assumes "i < lv_size lv (lv_state w)"
    and "i < lv_size lv (lv_set lv (lv_state w) i t)"
  shows "fst (List_get lv i (snd (List_set lv i t w))) = Inr (lv_get lv (lv_set lv (lv_state w) i t) i)"
  using assms by (simp add: List_get_eq List_set_eq)

theorem get_after_set_witness:
  "fst (List_get example_link_view 1 (snd (List_set example_link_view 1 42 (example_world [10, 11, 12] True))))
     = Inr 42"
proof -
  have before: "(1 :: 64 word) < lv_size example_link_view (lv_state (example_world [10, 11, 12] True))"
    by (simp add: example_defs)
  have after: "(1 :: 64 word) < lv_size example_link_view
             (lv_set example_link_view (lv_state (example_world [10, 11, 12] True)) 1 42)"
    by (simp add: example_defs)
  from get_after_set [OF before after] show ?thesis
    by (simp add: example_defs)
qed

end
